theory Spec2Isabelle
  imports Main
begin

section \<open>Generic streaming client (client/genericclient/stream.go)\<close>

text \<open>
  A shallow embedding of the generic streaming client. Go's return pairs
  \<open>(value, error)\<close> are sums, with the error on the left; a run-time panic is an
  error value of its own, so that every unchecked type assertion and every call
  through a nil interface is a branch of the model. Calls into the transport
  collaborator are recorded, in order, in a log that every operation takes and
  returns; the collaborator's answers are functions of that log, so a theorem that
  quantifies over them covers every deterministic transport.
\<close>

subsection \<open>Errors\<close>

datatype panic = NilPointerDereference | InterfaceConversion

text \<open>\<open>Error s\<close> is a Go error value with message \<open>s\<close>.\<close>

datatype error = Error string | Panic panic


subsection \<open>Declarations of package serviceinfo and package generic\<close>

text \<open>
  Modelled from the spec: the type \<open>serviceinfo.StreamingMode\<close> is declared outside
  this file; the spec enumerates \<open>None\<close>, \<open>ClientStreaming\<close>, \<open>ServerStreaming\<close>,
  \<open>Bidirectional\<close>.
\<close>

datatype StreamingMode =
  StreamingNone | StreamingClient | StreamingServer | StreamingBidirectional

text \<open>
  Modelled from the spec: the four string constants of package serviceinfo that key
  the descriptor slots of \<open>ServiceInfo.Methods\<close>. Their values are declared outside
  this file; only their names are used here.
\<close>

datatype MethodKey =
  GenericMethod
| GenericClientStreamingMethod
| GenericServerStreamingMethod
| GenericBidirectionalStreamingMethod

text \<open>
  The dynamic type of the value a descriptor's \<open>NewArgs()\<close> or \<open>NewResult()\<close>
  returns: the source asserts \<open>*generic.Args\<close> and \<open>*generic.Result\<close> on them
  without a check.
\<close>

datatype Envelope = GenericArgs | GenericResult | OtherEnvelope

record MethodInfo =
  NewArgs :: Envelope
  NewResult :: Envelope

text \<open>
  A value of the interface type \<open>serviceinfo.MethodInfo\<close> as this file produces
  it: \<open>Direct d\<close> is what the lookup \<open>svcInfo.Methods[key]\<close> yields (\<open>Direct None\<close>
  is the nil interface of a missing key), \<open>methodInfo d oneway\<close> is the wrapper
  \<open>&methodInfo{MethodInfo: d, oneway: oneway}\<close>.
\<close>

datatype MethodInfoValue =
  Direct "MethodInfo option"
| methodInfo "MethodInfo option" bool

fun embedded :: "MethodInfoValue \<Rightarrow> MethodInfo option" where
  "embedded (Direct d) = d"
| "embedded (methodInfo d oneway) = d"

record ServiceInfo =
  Methods :: "MethodKey \<Rightarrow> MethodInfo option"

text \<open>The result \<open>n\<close> of \<open>g.GetMethod(nil, name)\<close>.\<close>

record Method =
  Oneway :: bool
  StreamingMode :: StreamingMode

text \<open>
  A \<open>generic.Generic\<close>: whether it carries interface-description metadata
  (\<open>generic.HasIDLInfo(g)\<close>) and its method lookup, which fails with a message.
\<close>

record Generic =
  HasIDLInfo :: bool
  GetMethod :: "string \<Rightarrow> string + Method"

text \<open>
  Modelled from the spec: the Request Envelope \<open>{method, request}\<close> of
  \<open>generic.Args\<close>; the payload type \<open>'p\<close> is opaque.
\<close>

record 'p Args =
  Method :: string
  Request :: "'p"

subsection \<open>The transport collaborator\<close>

type_synonym callopt = nat

text \<open>\<open>WithCallOptions ctx callOpts\<close> is \<open>client.NewCtxWithCallOptions(ctx, callOpts)\<close>.\<close>

datatype Context = Background | WithCallOptions Context "callopt list"

text \<open>
  One entry of the log per call made on the transport: opening a stream, and
  \<open>SendMsg\<close>, \<open>Close\<close>, \<open>RecvMsg\<close> on the stream with the given identity.
\<close>

datatype 'p call =
  StreamCall Context string
| SendMsgCall nat "'p Args"
| CloseCall nat
| RecvMsgCall nat

text \<open>
  What a raw stream answers, given the log so far. \<open>recv\<close> answers an error
  message or the payload that \<open>GetSuccess()\<close> reads from the Result Envelope that
  \<open>RecvMsg\<close> filled.
\<close>

record 'p StreamImpl =
  send :: "'p call list \<Rightarrow> 'p Args \<Rightarrow> string option"
  close :: "'p call list \<Rightarrow> string option"
  recv :: "'p call list \<Rightarrow> string + 'p"

text \<open>A \<open>streaming.Stream\<close>: a reference to a raw stream of the transport.\<close>

record 'p Stream =
  sid :: nat
  impl :: "'p StreamImpl"

text \<open>
  The client of \<open>client.NewClient\<close>: \<open>StreamingKClient f\<close> implements
  \<open>client.Streaming\<close> and \<open>f log ctx method\<close> is what its \<open>Stream\<close> answers;
  \<open>PlainKClient\<close> does not implement it.
\<close>

datatype 'p KClient =
  StreamingKClient "'p call list \<Rightarrow> Context \<Rightarrow> string \<Rightarrow> string + 'p StreamImpl"
| PlainKClient

datatype 'p Option =
  WithGeneric Generic
| WithDestService string
| OtherOption nat

subsection \<open>The stream primitive\<close>

definition Stream_SendMsg ::
  "'p Stream \<Rightarrow> 'p Args \<Rightarrow> 'p call list \<Rightarrow> error option \<times> 'p call list" where
  "Stream_SendMsg s m log =
     (map_option Error (send (impl s) log m), log @ [SendMsgCall (sid s) m])"

definition Stream_Close ::
  "'p Stream \<Rightarrow> 'p call list \<Rightarrow> error option \<times> 'p call list" where
  "Stream_Close s log =
     (map_option Error (close (impl s) log), log @ [CloseCall (sid s)])"

definition Stream_RecvMsg ::
  "'p Stream \<Rightarrow> 'p call list \<Rightarrow> (error + 'p) \<times> 'p call list" where
  "Stream_RecvMsg s log =
     (case recv (impl s) log of
        Inl e \<Rightarrow> (Inl (Error e), log @ [RecvMsgCall (sid s)])
      | Inr v \<Rightarrow> (Inr v, log @ [RecvMsgCall (sid s)]))"

subsection \<open>The client\<close>

text \<open>
  \<open>modeMap\<close> is the \<open>*sync.Map\<close>: \<open>None\<close> is the nil pointer, \<open>Some mp\<close> the
  contents of the map. The hook installed by the constructor captures the same
  pointer, so it reads the field's current contents.
\<close>

record 'p genericServiceClient =
  svcInfo :: ServiceInfo
  kClient :: "'p KClient"
  sClient :: "'p KClient"
  g :: Generic
  modeMap :: "(string \<rightharpoonup> StreamingMode) option"

text \<open>A value of the interface \<open>Client\<close>: a generic client, or any other implementation.\<close>

datatype 'p Client =
  GenericServiceClient "'p genericServiceClient"
| OtherClient

definition LoadOrStore ::
  "(string \<rightharpoonup> StreamingMode) \<Rightarrow> string \<Rightarrow> StreamingMode \<Rightarrow> (string \<rightharpoonup> StreamingMode)" where
  "LoadOrStore mp key v = (case mp key of Some _ \<Rightarrow> mp | None \<Rightarrow> mp(key \<mapsto> v))"

fun getGenericStreamingMethodInfoKey :: "StreamingMode \<Rightarrow> MethodKey" where
  "getGenericStreamingMethodInfoKey StreamingClient = GenericClientStreamingMethod"
| "getGenericStreamingMethodInfoKey StreamingServer = GenericServerStreamingMethod"
| "getGenericStreamingMethodInfoKey StreamingBidirectional = GenericBidirectionalStreamingMethod"
| "getGenericStreamingMethodInfoKey _ = GenericMethod"

text \<open>
  The closure assigned to \<open>svcInfo.GenericMethod\<close>, with the variables it
  captures (\<open>svcInfo\<close>, \<open>g\<close>, \<open>mp\<close>) as parameters. \<open>mp.Load\<close> on a nil map pointer
  panics.
\<close>

definition svcInfo_GenericMethod ::
  "ServiceInfo \<Rightarrow> Generic \<Rightarrow> (string \<rightharpoonup> StreamingMode) option \<Rightarrow> string
     \<Rightarrow> error + MethodInfoValue" where
  "svcInfo_GenericMethod si gen mp name =
     (let key = GenericMethod in
      if \<not> HasIDLInfo gen then
        (case mp of
           None \<Rightarrow> Inl (Panic NilPointerDereference)
         | Some registry \<Rightarrow>
             (case registry name of
                Some mode \<Rightarrow> Inr (Direct (Methods si (getGenericStreamingMethodInfoKey mode)))
              | None \<Rightarrow> Inr (Direct (Methods si key))))
      else
        (case GetMethod gen name of
           Inl err \<Rightarrow> Inr (Direct (Methods si key))
         | Inr n \<Rightarrow>
             Inr (methodInfo (Methods si (getGenericStreamingMethodInfoKey (StreamingMode n)))
                    (Oneway n))))"

text \<open>
  Modelled from the spec: \<open>ServiceInfo.MethodInfo\<close> is declared outside this file;
  by the spec the constructor "installs a method-info hook ... that resolves a method
  name to a MethodDescriptor", so the lookup on a client's service info is the hook
  above over that client's fields.
\<close>

definition svcInfo_MethodInfo ::
  "'p genericServiceClient \<Rightarrow> string \<Rightarrow> error + MethodInfoValue" where
  "svcInfo_MethodInfo gCli name =
     svcInfo_GenericMethod (svcInfo gCli) (g gCli) (modeMap gCli) name"


text \<open>
  The two unchecked assertions \<open>NewArgs().(*generic.Args)\<close> and
  \<open>NewResult().(*generic.Result)\<close>: \<open>None\<close> when they go through.
\<close>

definition assertArgs :: "MethodInfoValue \<Rightarrow> panic option" where
  "assertArgs mi =
     (case embedded mi of
        None \<Rightarrow> Some NilPointerDereference
      | Some d \<Rightarrow> if NewArgs d = GenericArgs then None else Some InterfaceConversion)"

definition assertResult :: "MethodInfoValue \<Rightarrow> panic option" where
  "assertResult mi =
     (case embedded mi of
        None \<Rightarrow> Some NilPointerDereference
      | Some d \<Rightarrow> if NewResult d = GenericResult then None else Some InterfaceConversion)"

definition getStream ::
  "Context \<Rightarrow> 'p Client \<Rightarrow> string \<Rightarrow> callopt list \<Rightarrow> 'p call list
     \<Rightarrow> (error + 'p Stream) \<times> 'p call list" where
  "getStream ctx genericCli method callOpts log =
     (let ctx' = WithCallOptions ctx callOpts in
      case genericCli of
        OtherClient \<Rightarrow> (Inl (Panic InterfaceConversion), log)
      | GenericServiceClient gCli \<Rightarrow>
          (case kClient gCli of
             PlainKClient \<Rightarrow> (Inl (Error ''client not support streaming''), log)
           | StreamingKClient f \<Rightarrow>
               (case f log ctx' method of
                  Inl err \<Rightarrow> (Inl (Error err), log @ [StreamCall ctx' method])
                | Inr res \<Rightarrow>
                    (Inr \<lparr>sid = length log, impl = res\<rparr>, log @ [StreamCall ctx' method]))))"

text \<open>
  The guarded \<open>gCli.modeMap.LoadOrStore(method, mode)\<close> at the head of each
  factory.
\<close>

definition recordMode ::
  "'p genericServiceClient \<Rightarrow> string \<Rightarrow> StreamingMode \<Rightarrow> 'p genericServiceClient" where
  "recordMode gCli method mode =
     (case modeMap gCli of
        Some mp \<Rightarrow> gCli\<lparr>modeMap := Some (LoadOrStore mp method mode)\<rparr>
      | None \<Rightarrow> gCli)"

subsection \<open>Client streaming\<close>

record 'p deprecatedClientStreamingClient =
  cs_Stream :: "'p Stream"
  cs_method :: string
  cs_methodInfo :: MethodInfoValue

definition NewClientStreaming ::
  "Context \<Rightarrow> 'p Client \<Rightarrow> string \<Rightarrow> callopt list \<Rightarrow> 'p call list
     \<Rightarrow> (error + 'p deprecatedClientStreamingClient) \<times> 'p Client \<times> 'p call list" where
  "NewClientStreaming ctx genericCli method callOpts log =
     (case genericCli of
        OtherClient \<Rightarrow> (Inl (Error ''invalid generic client''), genericCli, log)
      | GenericServiceClient gCli0 \<Rightarrow>
          (let gCli = recordMode gCli0 method StreamingClient;
               cli = GenericServiceClient gCli
           in case getStream ctx cli method callOpts log of
                (Inl err, log') \<Rightarrow> (Inl err, cli, log')
              | (Inr stream, log') \<Rightarrow>
                  (case svcInfo_MethodInfo gCli method of
                     Inl p \<Rightarrow> (Inl p, cli, log')
                   | Inr mi \<Rightarrow>
                       (Inr \<lparr>cs_Stream = stream, cs_method = method, cs_methodInfo = mi\<rparr>,
                        cli, log'))))"

definition cs_Send ::
  "'p deprecatedClientStreamingClient \<Rightarrow> 'p \<Rightarrow> 'p call list
     \<Rightarrow> error option \<times> 'p call list" where
  "cs_Send cs req log =
     (case assertArgs (cs_methodInfo cs) of
        Some p \<Rightarrow> (Some (Panic p), log)
      | None \<Rightarrow> Stream_SendMsg (cs_Stream cs) \<lparr>Method = cs_method cs, Request = req\<rparr> log)"

definition cs_CloseAndRecv ::
  "'p deprecatedClientStreamingClient \<Rightarrow> 'p call list \<Rightarrow> (error + 'p) \<times> 'p call list" where
  "cs_CloseAndRecv cs log =
     (case Stream_Close (cs_Stream cs) log of
        (Some err, log1) \<Rightarrow> (Inl err, log1)
      | (None, log1) \<Rightarrow>
          (case assertResult (cs_methodInfo cs) of
             Some p \<Rightarrow> (Inl (Panic p), log1)
           | None \<Rightarrow> Stream_RecvMsg (cs_Stream cs) log1))"

subsection \<open>Server streaming\<close>

record 'p deprecatedServerStreamingClient =
  ss_Stream :: "'p Stream"
  ss_methodInfo :: MethodInfoValue

definition NewServerStreaming ::
  "Context \<Rightarrow> 'p Client \<Rightarrow> string \<Rightarrow> 'p \<Rightarrow> callopt list \<Rightarrow> 'p call list
     \<Rightarrow> (error + 'p deprecatedServerStreamingClient) \<times> 'p Client \<times> 'p call list" where
  "NewServerStreaming ctx genericCli method req callOpts log =
     (case genericCli of
        OtherClient \<Rightarrow> (Inl (Error ''invalid generic client''), genericCli, log)
      | GenericServiceClient gCli0 \<Rightarrow>
          (let gCli = recordMode gCli0 method StreamingServer;
               cli = GenericServiceClient gCli
           in case getStream ctx cli method callOpts log of
                (Inl err, log') \<Rightarrow> (Inl err, cli, log')
              | (Inr stream, log') \<Rightarrow>
                  (case svcInfo_MethodInfo gCli method of
                     Inl p \<Rightarrow> (Inl p, cli, log')
                   | Inr mtInfo \<Rightarrow>
                       (let ss = \<lparr>ss_Stream = stream, ss_methodInfo = mtInfo\<rparr> in
                        case assertArgs mtInfo of
                          Some p \<Rightarrow> (Inl (Panic p), cli, log')
                        | None \<Rightarrow>
                            (case Stream_SendMsg (ss_Stream ss)
                                    \<lparr>Method = method, Request = req\<rparr> log' of
                               (Some err, log1) \<Rightarrow> (Inl err, cli, log1)
                             | (None, log1) \<Rightarrow>
                                 (case Stream_Close (ss_Stream ss) log1 of
                                    (Some err, log2) \<Rightarrow> (Inl err, cli, log2)
                                  | (None, log2) \<Rightarrow> (Inr ss, cli, log2)))))))"

definition ss_Recv ::
  "'p deprecatedServerStreamingClient \<Rightarrow> 'p call list \<Rightarrow> (error + 'p) \<times> 'p call list" where
  "ss_Recv ss log =
     (case assertResult (ss_methodInfo ss) of
        Some p \<Rightarrow> (Inl (Panic p), log)
      | None \<Rightarrow> Stream_RecvMsg (ss_Stream ss) log)"

subsection \<open>Bidirectional streaming\<close>

record 'p deprecatedBidirectionalStreamingClient =
  bs_Stream :: "'p Stream"
  bs_method :: string
  bs_methodInfo :: MethodInfoValue

definition NewBidirectionalStreaming ::
  "Context \<Rightarrow> 'p Client \<Rightarrow> string \<Rightarrow> callopt list \<Rightarrow> 'p call list
     \<Rightarrow> (error + 'p deprecatedBidirectionalStreamingClient) \<times> 'p Client \<times> 'p call list" where
  "NewBidirectionalStreaming ctx genericCli method callOpts log =
     (case genericCli of
        OtherClient \<Rightarrow> (Inl (Error ''invalid generic client''), genericCli, log)
      | GenericServiceClient gCli0 \<Rightarrow>
          (let gCli = recordMode gCli0 method StreamingBidirectional;
               cli = GenericServiceClient gCli
           in case getStream ctx cli method callOpts log of
                (Inl err, log') \<Rightarrow> (Inl err, cli, log')
              | (Inr stream, log') \<Rightarrow>
                  (case svcInfo_MethodInfo gCli method of
                     Inl p \<Rightarrow> (Inl p, cli, log')
                   | Inr mi \<Rightarrow>
                       (Inr \<lparr>bs_Stream = stream, bs_method = method, bs_methodInfo = mi\<rparr>,
                        cli, log'))))"

definition bs_Send ::
  "'p deprecatedBidirectionalStreamingClient \<Rightarrow> 'p \<Rightarrow> 'p call list
     \<Rightarrow> error option \<times> 'p call list" where
  "bs_Send bs req log =
     (case assertArgs (bs_methodInfo bs) of
        Some p \<Rightarrow> (Some (Panic p), log)
      | None \<Rightarrow> Stream_SendMsg (bs_Stream bs) \<lparr>Method = bs_method bs, Request = req\<rparr> log)"

definition bs_Recv ::
  "'p deprecatedBidirectionalStreamingClient \<Rightarrow> 'p call list
     \<Rightarrow> (error + 'p) \<times> 'p call list" where
  "bs_Recv bs log =
     (case assertResult (bs_methodInfo bs) of
        Some p \<Rightarrow> (Inl (Panic p), log)
      | None \<Rightarrow> Stream_RecvMsg (bs_Stream bs) log)"

subsection \<open>Callers\<close>

text \<open>
  What a caller may do with a handle, as a list of operations run in order on the
  transport log; the values the operations return are dropped.
\<close>

datatype 'p cs_op = CsSend 'p | CsCloseAndRecv

fun cs_run ::
  "'p deprecatedClientStreamingClient \<Rightarrow> 'p cs_op list \<Rightarrow> 'p call list \<Rightarrow> 'p call list" where
  "cs_run cs [] log = log"
| "cs_run cs (CsSend req # ops) log = cs_run cs ops (snd (cs_Send cs req log))"
| "cs_run cs (CsCloseAndRecv # ops) log = cs_run cs ops (snd (cs_CloseAndRecv cs log))"

datatype 'p bs_op = BsSend 'p | BsRecv

fun bs_run ::
  "'p deprecatedBidirectionalStreamingClient \<Rightarrow> 'p bs_op list \<Rightarrow> 'p call list
     \<Rightarrow> 'p call list" where
  "bs_run bs [] log = log"
| "bs_run bs (BsSend req # ops) log = bs_run bs ops (snd (bs_Send bs req log))"
| "bs_run bs (BsRecv # ops) log = bs_run bs ops (snd (bs_Recv bs log))"

fun ss_run ::
  "'p deprecatedServerStreamingClient \<Rightarrow> nat \<Rightarrow> 'p call list \<Rightarrow> 'p call list" where
  "ss_run ss 0 log = log"
| "ss_run ss (Suc n) log = ss_run ss n (snd (ss_Recv ss log))"

text \<open>
  A sequence of factory calls on one client: each call leaves the client (its
  registry) and the transport log to the next; the handles are dropped.
\<close>

datatype 'p factory_call =
  ClientStreamingCall Context string "callopt list"
| ServerStreamingCall Context string 'p "callopt list"
| BidirectionalStreamingCall Context string "callopt list"

fun call_factory ::
  "'p factory_call \<Rightarrow> 'p Client \<Rightarrow> 'p call list \<Rightarrow> 'p Client \<times> 'p call list" where
  "call_factory (ClientStreamingCall ctx m opts) cli log =
     snd (NewClientStreaming ctx cli m opts log)"
| "call_factory (ServerStreamingCall ctx m req opts) cli log =
     snd (NewServerStreaming ctx cli m req opts log)"
| "call_factory (BidirectionalStreamingCall ctx m opts) cli log =
     snd (NewBidirectionalStreaming ctx cli m opts log)"

fun factory_method :: "'p factory_call \<Rightarrow> string" where
  "factory_method (ClientStreamingCall ctx m opts) = m"
| "factory_method (ServerStreamingCall ctx m req opts) = m"
| "factory_method (BidirectionalStreamingCall ctx m opts) = m"

fun factory_mode :: "'p factory_call \<Rightarrow> StreamingMode" where
  "factory_mode (ClientStreamingCall ctx m opts) = StreamingClient"
| "factory_mode (ServerStreamingCall ctx m req opts) = StreamingServer"
| "factory_mode (BidirectionalStreamingCall ctx m opts) = StreamingBidirectional"

fun run_calls ::
  "'p factory_call list \<Rightarrow> 'p Client \<Rightarrow> 'p call list \<Rightarrow> 'p Client \<times> 'p call list" where
  "run_calls [] cli log = (cli, log)"
| "run_calls (c # cs) cli log =
     (case call_factory c cli log of (cli', log') \<Rightarrow> run_calls cs cli' log')"

text \<open>
  \<open>sends_only i m ext\<close>: every envelope written in \<open>ext\<close> goes to stream \<open>i\<close> and
  names method \<open>m\<close>.
\<close>

definition sends_only :: "nat \<Rightarrow> string \<Rightarrow> 'p call list \<Rightarrow> bool" where
  "sends_only i m ext =
     list_all (\<lambda>c. case c of SendMsgCall j a \<Rightarrow> j = i \<and> Method a = m | _ \<Rightarrow> True) ext"





subsection \<open>Concrete clients and transports\<close>

text \<open>
  A descriptor table with every slot present and generic, a schema-less generic, and
  transports that always succeed, fail to open, fail to send and fail to close.
\<close>

definition genericSlot :: MethodInfo where
  "genericSlot = \<lparr>NewArgs = GenericArgs, NewResult = GenericResult\<rparr>"

definition fullServiceInfo :: ServiceInfo where
  "fullServiceInfo = \<lparr>Methods = (\<lambda>key. Some genericSlot)\<rparr>"

definition emptyServiceInfo :: ServiceInfo where
  "emptyServiceInfo = \<lparr>Methods = (\<lambda>key. None)\<rparr>"

definition binaryGeneric :: Generic where
  "binaryGeneric = \<lparr>HasIDLInfo = False, GetMethod = (\<lambda>name. Inl ''no idl'')\<rparr>"

definition idlGeneric :: Generic where
  "idlGeneric =
     \<lparr>HasIDLInfo = True,
      GetMethod = (\<lambda>name. if name = ''Echo''
                           then Inr \<lparr>Oneway = False, StreamingMode = StreamingBidirectional\<rparr>
                         else if name = ''Upload''
                           then Inr \<lparr>Oneway = True, StreamingMode = StreamingClient\<rparr>
                         else if name = ''Watch''
                           then Inr \<lparr>Oneway = False, StreamingMode = StreamingServer\<rparr>
                         else if name = ''Ping''
                           then Inr \<lparr>Oneway = True, StreamingMode = StreamingNone\<rparr>
                           else Inl ''missing method'')\<rparr>"

definition clientSlot :: MethodInfo where
  "clientSlot = \<lparr>NewArgs = GenericArgs, NewResult = OtherEnvelope\<rparr>"

definition serverSlot :: MethodInfo where
  "serverSlot = \<lparr>NewArgs = OtherEnvelope, NewResult = GenericResult\<rparr>"

definition bidiSlot :: MethodInfo where
  "bidiSlot = \<lparr>NewArgs = OtherEnvelope, NewResult = OtherEnvelope\<rparr>"

definition distinctServiceInfo :: ServiceInfo where
  "distinctServiceInfo =
     \<lparr>Methods = (\<lambda>key. case key of
                     GenericMethod \<Rightarrow> Some genericSlot
                   | GenericClientStreamingMethod \<Rightarrow> Some clientSlot
                   | GenericServerStreamingMethod \<Rightarrow> Some serverSlot
                   | GenericBidirectionalStreamingMethod \<Rightarrow> Some bidiSlot)\<rparr>"

definition okImpl :: "nat StreamImpl" where
  "okImpl = \<lparr>send = (\<lambda>log m. None), close = (\<lambda>log. None), recv = (\<lambda>log. Inr 7)\<rparr>"

definition sendFailImpl :: "nat StreamImpl" where
  "sendFailImpl =
     \<lparr>send = (\<lambda>log m. Some ''send failed''), close = (\<lambda>log. None), recv = (\<lambda>log. Inr 7)\<rparr>"

definition closeFailImpl :: "nat StreamImpl" where
  "closeFailImpl =
     \<lparr>send = (\<lambda>log m. None), close = (\<lambda>log. Some ''close failed''), recv = (\<lambda>log. Inr 7)\<rparr>"

definition clientOver :: "ServiceInfo \<Rightarrow> nat KClient \<Rightarrow> nat genericServiceClient" where
  "clientOver si kc =
     \<lparr>svcInfo = si, kClient = kc, sClient = kc, g = binaryGeneric, modeMap = Some Map.empty\<rparr>"

definition okClient :: "nat genericServiceClient" where
  "okClient = clientOver fullServiceInfo (StreamingKClient (\<lambda>log ctx method. Inr okImpl))"

definition openFailClient :: "nat genericServiceClient" where
  "openFailClient =
     clientOver fullServiceInfo (StreamingKClient (\<lambda>log ctx method. Inl ''open failed''))"

definition sendFailClient :: "nat genericServiceClient" where
  "sendFailClient =
     clientOver fullServiceInfo (StreamingKClient (\<lambda>log ctx method. Inr sendFailImpl))"

definition closeFailClient :: "nat genericServiceClient" where
  "closeFailClient =
     clientOver fullServiceInfo (StreamingKClient (\<lambda>log ctx method. Inr closeFailImpl))"

definition slotlessClient :: "nat genericServiceClient" where
  "slotlessClient = clientOver emptyServiceInfo (StreamingKClient (\<lambda>log ctx method. Inr okImpl))"

definition okHandle :: "nat deprecatedClientStreamingClient" where
  "okHandle =
     \<lparr>cs_Stream = \<lparr>sid = 0, impl = okImpl\<rparr>, cs_method = ''Foo'',
      cs_methodInfo = Direct (Some genericSlot)\<rparr>"

definition closeFailHandle :: "nat deprecatedClientStreamingClient" where
  "closeFailHandle =
     \<lparr>cs_Stream = \<lparr>sid = 0, impl = closeFailImpl\<rparr>, cs_method = ''Foo'',
      cs_methodInfo = Direct (Some genericSlot)\<rparr>"

definition slotlessHandle :: "nat deprecatedClientStreamingClient" where
  "slotlessHandle =
     \<lparr>cs_Stream = \<lparr>sid = 0, impl = okImpl\<rparr>, cs_method = ''Foo'',
      cs_methodInfo = Direct None\<rparr>"

definition okServerHandle :: "nat deprecatedServerStreamingClient" where
  "okServerHandle =
     \<lparr>ss_Stream = \<lparr>sid = 0, impl = okImpl\<rparr>, ss_methodInfo = Direct (Some genericSlot)\<rparr>"

definition okBidiHandle :: "nat deprecatedBidirectionalStreamingClient" where
  "okBidiHandle =
     \<lparr>bs_Stream = \<lparr>sid = 0, impl = okImpl\<rparr>, bs_method = ''Foo'',
      bs_methodInfo = Direct (Some genericSlot)\<rparr>"

definition okKClient :: "nat KClient" where
  "okKClient = StreamingKClient (\<lambda>log ctx method. Inr okImpl)"

definition newOkKClient :: "ServiceInfo \<Rightarrow> nat Option list \<Rightarrow> string + nat KClient" where
  "newOkKClient si options = Inr okKClient"

definition fooOpened :: "nat call list" where
  "fooOpened = [StreamCall (WithCallOptions Background []) ''Foo'']"

definition plainClient :: "nat genericServiceClient" where
  "plainClient = clientOver fullServiceInfo PlainKClient"

lemmas example_defs =
  genericSlot_def fullServiceInfo_def emptyServiceInfo_def binaryGeneric_def idlGeneric_def
  okImpl_def sendFailImpl_def closeFailImpl_def clientOver_def okClient_def openFailClient_def
  sendFailClient_def closeFailClient_def slotlessClient_def okHandle_def
  closeFailHandle_def slotlessHandle_def okServerHandle_def
  okBidiHandle_def okKClient_def newOkKClient_def fooOpened_def plainClient_def
  clientSlot_def serverSlot_def bidiSlot_def distinctServiceInfo_def

lemmas factory_defs =
  NewClientStreaming_def NewServerStreaming_def NewBidirectionalStreaming_def getStream_def
  recordMode_def LoadOrStore_def svcInfo_MethodInfo_def svcInfo_GenericMethod_def
  assertArgs_def assertResult_def Stream_SendMsg_def Stream_Close_def Stream_RecvMsg_def

lemmas handle_defs =
  cs_Send_def cs_CloseAndRecv_def ss_Recv_def bs_Send_def bs_Recv_def

section \<open>Properties\<close>

subsection \<open>Stream acquisition\<close>



lemma getStream_open_ok:
  "kClient gCli = StreamingKClient f \<Longrightarrow>
   f log (WithCallOptions ctx callOpts) method = Inr res \<Longrightarrow>
   getStream ctx (GenericServiceClient gCli) method callOpts log =
     (Inr \<lparr>sid = length log, impl = res\<rparr>,
      log @ [StreamCall (WithCallOptions ctx callOpts) method])"
  by (simp add: getStream_def)

lemma kClient_recordMode [simp]: "kClient (recordMode gCli method mode) = kClient gCli"
  by (simp add: recordMode_def split: option.splits)

lemma svcInfo_recordMode [simp]: "svcInfo (recordMode gCli method mode) = svcInfo gCli"
  by (simp add: recordMode_def split: option.splits)

lemma g_recordMode [simp]: "g (recordMode gCli method mode) = g gCli"
  by (simp add: recordMode_def split: option.splits)

subsection \<open>Factories on a client that is not generic\<close>



subsection \<open>Resolution of a method name\<close>

text \<open>
  C5. Without interface-description metadata, a name with no recorded mode resolves
  to the default descriptor slot \<open>GenericMethod\<close>, the slot of mode \<open>StreamingNone\<close>,
  and a name with a recorded mode resolves to the slot of that mode: the
  client-streaming slot for \<open>StreamingClient\<close>, the server-streaming slot for
  \<open>StreamingServer\<close>, the bidirectional slot for \<open>StreamingBidirectional\<close>. With
  metadata, a failed method lookup resolves to the default slot instead of an error,
  and a successful one to the slot of the method's declared mode, chosen in the same
  way and wrapped with the method's oneway flag. The last four conjuncts are the
  table \<open>getGenericStreamingMethodInfoKey\<close> computes.
\<close>

theorem resolution_selects_slot:
  "(\<not> HasIDLInfo gen \<longrightarrow> registry name = None \<longrightarrow>
      svcInfo_GenericMethod si gen (Some registry) name = Inr (Direct (Methods si GenericMethod)))
   \<and> (HasIDLInfo gen \<longrightarrow> GetMethod gen name = Inl err \<longrightarrow>
      svcInfo_GenericMethod si gen mp name = Inr (Direct (Methods si GenericMethod)))
   \<and> (\<not> HasIDLInfo gen \<longrightarrow> registry name = Some mode \<longrightarrow>
      svcInfo_GenericMethod si gen (Some registry) name
        = Inr (Direct (Methods si
            (case mode of
               StreamingNone \<Rightarrow> GenericMethod
             | StreamingClient \<Rightarrow> GenericClientStreamingMethod
             | StreamingServer \<Rightarrow> GenericServerStreamingMethod
             | StreamingBidirectional \<Rightarrow> GenericBidirectionalStreamingMethod))))
   \<and> (HasIDLInfo gen \<longrightarrow> GetMethod gen name = Inr n \<longrightarrow>
      svcInfo_GenericMethod si gen mp name
        = Inr (methodInfo
            (Methods si
               (case StreamingMode n of
                  StreamingNone \<Rightarrow> GenericMethod
                | StreamingClient \<Rightarrow> GenericClientStreamingMethod
                | StreamingServer \<Rightarrow> GenericServerStreamingMethod
                | StreamingBidirectional \<Rightarrow> GenericBidirectionalStreamingMethod))
            (Oneway n)))
   \<and> getGenericStreamingMethodInfoKey StreamingNone = GenericMethod
   \<and> getGenericStreamingMethodInfoKey StreamingClient = GenericClientStreamingMethod
   \<and> getGenericStreamingMethodInfoKey StreamingServer = GenericServerStreamingMethod
   \<and> getGenericStreamingMethodInfoKey StreamingBidirectional
       = GenericBidirectionalStreamingMethod"
proof -
  have key: "getGenericStreamingMethodInfoKey M
      = (case M of
           StreamingNone \<Rightarrow> GenericMethod
         | StreamingClient \<Rightarrow> GenericClientStreamingMethod
         | StreamingServer \<Rightarrow> GenericServerStreamingMethod
         | StreamingBidirectional \<Rightarrow> GenericBidirectionalStreamingMethod)" for M
    by (cases M) simp_all
  show ?thesis
    by (simp add: svcInfo_GenericMethod_def key)
qed


theorem resolution_selects_slot_witness:
  "\<not> HasIDLInfo binaryGeneric
   \<and> Map.empty ''Foo'' = (None :: StreamingMode option)
   \<and> svcInfo_GenericMethod distinctServiceInfo binaryGeneric (Some Map.empty) ''Foo''
        = Inr (Direct (Some genericSlot))
   \<and> [''Foo'' \<mapsto> StreamingClient] ''Foo'' = Some StreamingClient
   \<and> svcInfo_GenericMethod distinctServiceInfo binaryGeneric
        (Some [''Foo'' \<mapsto> StreamingClient]) ''Foo''
        = Inr (Direct (Some clientSlot))
   \<and> [''Foo'' \<mapsto> StreamingServer] ''Foo'' = Some StreamingServer
   \<and> svcInfo_GenericMethod distinctServiceInfo binaryGeneric
        (Some [''Foo'' \<mapsto> StreamingServer]) ''Foo''
        = Inr (Direct (Some serverSlot))
   \<and> [''Foo'' \<mapsto> StreamingBidirectional] ''Foo'' = Some StreamingBidirectional
   \<and> svcInfo_GenericMethod distinctServiceInfo binaryGeneric
        (Some [''Foo'' \<mapsto> StreamingBidirectional]) ''Foo''
        = Inr (Direct (Some bidiSlot))
   \<and> HasIDLInfo idlGeneric
   \<and> GetMethod idlGeneric ''Foo'' = Inl ''missing method''
   \<and> svcInfo_GenericMethod distinctServiceInfo idlGeneric None ''Foo''
        = Inr (Direct (Some genericSlot))
   \<and> GetMethod idlGeneric ''Echo''
        = Inr \<lparr>Oneway = False, StreamingMode = StreamingBidirectional\<rparr>
   \<and> svcInfo_GenericMethod distinctServiceInfo idlGeneric None ''Echo''
        = Inr (methodInfo (Some bidiSlot) False)
   \<and> GetMethod idlGeneric ''Upload''
        = Inr \<lparr>Oneway = True, StreamingMode = StreamingClient\<rparr>
   \<and> svcInfo_GenericMethod distinctServiceInfo idlGeneric None ''Upload''
        = Inr (methodInfo (Some clientSlot) True)
   \<and> GetMethod idlGeneric ''Watch''
        = Inr \<lparr>Oneway = False, StreamingMode = StreamingServer\<rparr>
   \<and> svcInfo_GenericMethod distinctServiceInfo idlGeneric None ''Watch''
        = Inr (methodInfo (Some serverSlot) False)
   \<and> genericSlot \<noteq> clientSlot \<and> genericSlot \<noteq> serverSlot \<and> genericSlot \<noteq> bidiSlot
   \<and> clientSlot \<noteq> serverSlot \<and> clientSlot \<noteq> bidiSlot \<and> serverSlot \<noteq> bidiSlot"
proof -
  have m [simp]:
    "Methods distinctServiceInfo GenericMethod = Some genericSlot"
    "Methods distinctServiceInfo GenericClientStreamingMethod = Some clientSlot"
    "Methods distinctServiceInfo GenericServerStreamingMethod = Some serverSlot"
    "Methods distinctServiceInfo GenericBidirectionalStreamingMethod = Some bidiSlot"
    by (simp_all add: distinctServiceInfo_def)
  have h [simp]: "\<not> HasIDLInfo binaryGeneric" "HasIDLInfo idlGeneric"
    by (simp_all add: binaryGeneric_def idlGeneric_def)
  have gm [simp]:
    "GetMethod idlGeneric ''Foo'' = Inl ''missing method''"
    "GetMethod idlGeneric ''Echo''
        = Inr \<lparr>Oneway = False, StreamingMode = StreamingBidirectional\<rparr>"
    "GetMethod idlGeneric ''Upload'' = Inr \<lparr>Oneway = True, StreamingMode = StreamingClient\<rparr>"
    "GetMethod idlGeneric ''Watch'' = Inr \<lparr>Oneway = False, StreamingMode = StreamingServer\<rparr>"
    by (simp_all add: idlGeneric_def)
  have d: "genericSlot \<noteq> clientSlot \<and> genericSlot \<noteq> serverSlot \<and> genericSlot \<noteq> bidiSlot
   \<and> clientSlot \<noteq> serverSlot \<and> clientSlot \<noteq> bidiSlot \<and> serverSlot \<noteq> bidiSlot"
    by (simp add: genericSlot_def clientSlot_def serverSlot_def bidiSlot_def)
  note t = resolution_selects_slot [where si = distinctServiceInfo and err = "''missing method''"]
  have a0: "svcInfo_GenericMethod distinctServiceInfo binaryGeneric (Some Map.empty) ''Foo''
        = Inr (Direct (Some genericSlot))"
    using t [where gen = binaryGeneric and registry = Map.empty and name = "''Foo''"]
    by simp
  have a1: "svcInfo_GenericMethod distinctServiceInfo binaryGeneric
        (Some [''Foo'' \<mapsto> StreamingClient]) ''Foo'' = Inr (Direct (Some clientSlot))"
    using t [where gen = binaryGeneric and registry = "[''Foo'' \<mapsto> StreamingClient]"
        and name = "''Foo''" and mode = StreamingClient]
    by simp
  have a2: "svcInfo_GenericMethod distinctServiceInfo binaryGeneric
        (Some [''Foo'' \<mapsto> StreamingServer]) ''Foo'' = Inr (Direct (Some serverSlot))"
    using t [where gen = binaryGeneric and registry = "[''Foo'' \<mapsto> StreamingServer]"
        and name = "''Foo''" and mode = StreamingServer]
    by simp
  have a3: "svcInfo_GenericMethod distinctServiceInfo binaryGeneric
        (Some [''Foo'' \<mapsto> StreamingBidirectional]) ''Foo'' = Inr (Direct (Some bidiSlot))"
    using t [where gen = binaryGeneric and registry = "[''Foo'' \<mapsto> StreamingBidirectional]"
        and name = "''Foo''" and mode = StreamingBidirectional]
    by simp
  have b0: "svcInfo_GenericMethod distinctServiceInfo idlGeneric None ''Foo''
        = Inr (Direct (Some genericSlot))"
    using t [where gen = idlGeneric and name = "''Foo''" and mp = None]
    by simp
  have b1: "svcInfo_GenericMethod distinctServiceInfo idlGeneric None ''Echo''
        = Inr (methodInfo (Some bidiSlot) False)"
    using t [where gen = idlGeneric and name = "''Echo''" and mp = None
        and n = "\<lparr>Oneway = False, StreamingMode = StreamingBidirectional\<rparr>"]
    by simp
  have b2: "svcInfo_GenericMethod distinctServiceInfo idlGeneric None ''Upload''
        = Inr (methodInfo (Some clientSlot) True)"
    using t [where gen = idlGeneric and name = "''Upload''" and mp = None
        and n = "\<lparr>Oneway = True, StreamingMode = StreamingClient\<rparr>"]
    by simp
  have b3: "svcInfo_GenericMethod distinctServiceInfo idlGeneric None ''Watch''
        = Inr (methodInfo (Some serverSlot) False)"
    using t [where gen = idlGeneric and name = "''Watch''" and mp = None
        and n = "\<lparr>Oneway = False, StreamingMode = StreamingServer\<rparr>"]
    by simp
  from a0 a1 a2 a3 b0 b1 b2 b3 d show ?thesis
    by simp
qed

subsection \<open>Client streaming: close, then receive\<close>

text \<open>
  C4. \<open>CloseAndRecv\<close> calls \<open>Close\<close> on the raw stream first. If \<open>Close\<close> answers
  an error, that error is returned at once and \<open>Close\<close> is the only call made: no
  receive is attempted. If \<open>Close\<close> succeeds (and the descriptor builds a generic
  Result Envelope) exactly one \<open>RecvMsg\<close> follows, and its answer is the result. A
  \<open>RecvMsg\<close> among the calls made implies that \<open>Close\<close> succeeded.
\<close>

theorem CloseAndRecv_close_first:
  "(\<exists>rest. snd (cs_CloseAndRecv cs log) = log @ CloseCall (sid (cs_Stream cs)) # rest)
   \<and> (close (impl (cs_Stream cs)) log = Some e \<longrightarrow>
        cs_CloseAndRecv cs log = (Inl (Error e), log @ [CloseCall (sid (cs_Stream cs))]))
   \<and> (close (impl (cs_Stream cs)) log = None \<longrightarrow> assertResult (cs_methodInfo cs) = None \<longrightarrow>
        cs_CloseAndRecv cs log =
          (case recv (impl (cs_Stream cs)) (log @ [CloseCall (sid (cs_Stream cs))]) of
             Inl err \<Rightarrow> Inl (Error err) | Inr v \<Rightarrow> Inr v,
           log @ [CloseCall (sid (cs_Stream cs)), RecvMsgCall (sid (cs_Stream cs))]))
   \<and> (RecvMsgCall i \<in> set (drop (length log) (snd (cs_CloseAndRecv cs log))) \<longrightarrow>
        close (impl (cs_Stream cs)) log = None)"
  by (auto simp: cs_CloseAndRecv_def Stream_Close_def Stream_RecvMsg_def
      split: option.splits sum.splits)

theorem CloseAndRecv_close_first_witness:
  "close (impl (cs_Stream closeFailHandle)) [] = Some ''close failed''
   \<and> cs_CloseAndRecv closeFailHandle [] = (Inl (Error ''close failed''), [CloseCall 0])
   \<and> close (impl (cs_Stream okHandle)) [] = None
   \<and> assertResult (cs_methodInfo okHandle) = None
   \<and> cs_CloseAndRecv okHandle [] = (Inr 7, [CloseCall 0, RecvMsgCall 0])
   \<and> RecvMsgCall 0 \<in> set (drop (length []) (snd (cs_CloseAndRecv okHandle [])))"
  using CloseAndRecv_close_first [of closeFailHandle "[]" "''close failed''" 0]
    CloseAndRecv_close_first [of okHandle "[]" "''close failed''" 0]
  by (simp add: example_defs assertResult_def)

subsection \<open>Handles as the factories build them\<close>

lemma NewClientStreaming_handle:
  assumes "NewClientStreaming ctx cli m opts log0 = (Inr cs, cli', log)"
  shows "cs_method cs = m \<and> sid (cs_Stream cs) = length log0
     \<and> log = log0 @ [StreamCall (WithCallOptions ctx opts) m]
     \<and> (\<exists>gc. cli' = GenericServiceClient gc \<and> svcInfo_MethodInfo gc m = Inr (cs_methodInfo cs))"
  using assms
  by (auto simp: NewClientStreaming_def getStream_def Let_def
      split: Client.splits KClient.splits sum.splits prod.splits)

lemma NewBidirectionalStreaming_handle:
  assumes "NewBidirectionalStreaming ctx cli m opts log0 = (Inr bs, cli', log)"
  shows "bs_method bs = m \<and> sid (bs_Stream bs) = length log0
     \<and> log = log0 @ [StreamCall (WithCallOptions ctx opts) m]
     \<and> (\<exists>gc. cli' = GenericServiceClient gc \<and> svcInfo_MethodInfo gc m = Inr (bs_methodInfo bs))"
  using assms
  by (auto simp: NewBidirectionalStreaming_def getStream_def Let_def
      split: Client.splits KClient.splits sum.splits prod.splits)

lemma NewServerStreaming_handle:
  assumes "NewServerStreaming ctx cli m r opts log0 = (Inr ss, cli', log)"
  shows "sid (ss_Stream ss) = length log0
     \<and> log = log0 @ [StreamCall (WithCallOptions ctx opts) m,
                     SendMsgCall (length log0) \<lparr>Method = m, Request = r\<rparr>,
                     CloseCall (length log0)]
     \<and> (\<exists>gc. cli' = GenericServiceClient gc \<and> svcInfo_MethodInfo gc m = Inr (ss_methodInfo ss))"
  using assms
  by (auto simp: NewServerStreaming_def getStream_def Let_def Stream_SendMsg_def
      Stream_Close_def
      split: Client.splits KClient.splits sum.splits prod.splits option.splits)

subsection \<open>Client streaming: two sends and the result\<close>

text \<open>
  C2. On a handle that \<open>NewClientStreaming\<close> returned for method \<open>m\<close>, whose
  descriptor builds the generic envelopes: \<open>Send(a); Send(b)\<close> write exactly the two
  Request Envelopes \<open>{m, a}\<close> and \<open>{m, b}\<close> to the handle's stream, in this order, and
  when \<open>Close\<close> then succeeds, \<open>CloseAndRecv\<close> adds the \<open>Close\<close> and exactly one
  \<open>RecvMsg\<close> and returns what that read answered: the payload of the Result Envelope.
\<close>

theorem client_streaming_sequence:
  assumes "NewClientStreaming ctx cli m opts log0 = (Inr cs, cli', log)"
    and "assertArgs (cs_methodInfo cs) = None"
    and "assertResult (cs_methodInfo cs) = None"
    and "log2 = snd (cs_Send cs b (snd (cs_Send cs a log)))"
    and "close (impl (cs_Stream cs)) log2 = None"
  shows "log2 = log @ [SendMsgCall (sid (cs_Stream cs)) \<lparr>Method = m, Request = a\<rparr>,
                       SendMsgCall (sid (cs_Stream cs)) \<lparr>Method = m, Request = b\<rparr>]
     \<and> snd (cs_CloseAndRecv cs log2) =
         log @ [SendMsgCall (sid (cs_Stream cs)) \<lparr>Method = m, Request = a\<rparr>,
                SendMsgCall (sid (cs_Stream cs)) \<lparr>Method = m, Request = b\<rparr>,
                CloseCall (sid (cs_Stream cs)), RecvMsgCall (sid (cs_Stream cs))]
     \<and> fst (cs_CloseAndRecv cs log2) =
         (case recv (impl (cs_Stream cs)) (log2 @ [CloseCall (sid (cs_Stream cs))]) of
            Inl err \<Rightarrow> Inl (Error err) | Inr v \<Rightarrow> Inr v)"
proof -
  have m: "cs_method cs = m"
    using NewClientStreaming_handle [OF assms(1)] by simp
  have l2: "log2 = log @ [SendMsgCall (sid (cs_Stream cs)) \<lparr>Method = m, Request = a\<rparr>,
                       SendMsgCall (sid (cs_Stream cs)) \<lparr>Method = m, Request = b\<rparr>]"
    using assms(2,4) m by (simp add: cs_Send_def Stream_SendMsg_def)
  have "cs_CloseAndRecv cs log2 =
          (case recv (impl (cs_Stream cs)) (log2 @ [CloseCall (sid (cs_Stream cs))]) of
             Inl err \<Rightarrow> Inl (Error err) | Inr v \<Rightarrow> Inr v,
           log2 @ [CloseCall (sid (cs_Stream cs)), RecvMsgCall (sid (cs_Stream cs))])"
    using assms(3,5)
    by (simp add: cs_CloseAndRecv_def Stream_Close_def Stream_RecvMsg_def split: sum.splits)
  with l2 show ?thesis by simp
qed

theorem client_streaming_sequence_witness:
  "NewClientStreaming Background (GenericServiceClient okClient) ''Foo'' [] [] =
     (Inr okHandle,
      GenericServiceClient (okClient\<lparr>modeMap := Some [''Foo'' \<mapsto> StreamingClient]\<rparr>),
      [StreamCall (WithCallOptions Background []) ''Foo''])
   \<and> assertArgs (cs_methodInfo okHandle) = None
   \<and> assertResult (cs_methodInfo okHandle) = None
   \<and> close (impl (cs_Stream okHandle))
        (snd (cs_Send okHandle 6 (snd (cs_Send okHandle 4
           [StreamCall (WithCallOptions Background []) ''Foo''])))) = None
   \<and> snd (cs_CloseAndRecv okHandle
        (snd (cs_Send okHandle 6 (snd (cs_Send okHandle 4
           [StreamCall (WithCallOptions Background []) ''Foo''])))))
       = [StreamCall (WithCallOptions Background []) ''Foo'',
          SendMsgCall 0 \<lparr>Method = ''Foo'', Request = 4\<rparr>,
          SendMsgCall 0 \<lparr>Method = ''Foo'', Request = 6\<rparr>,
          CloseCall 0, RecvMsgCall 0]
   \<and> fst (cs_CloseAndRecv okHandle
        (snd (cs_Send okHandle 6 (snd (cs_Send okHandle 4
           [StreamCall (WithCallOptions Background []) ''Foo''])))))
       = Inr 7"
proof -
  have h1: "NewClientStreaming Background (GenericServiceClient okClient) ''Foo'' [] [] =
     (Inr okHandle,
      GenericServiceClient (okClient\<lparr>modeMap := Some [''Foo'' \<mapsto> StreamingClient]\<rparr>),
      [StreamCall (WithCallOptions Background []) ''Foo''])"
    by (simp add: example_defs NewClientStreaming_def getStream_def recordMode_def
        LoadOrStore_def svcInfo_MethodInfo_def svcInfo_GenericMethod_def)
  have h2: "assertArgs (cs_methodInfo okHandle) = None"
    by (simp add: example_defs assertArgs_def)
  have h3: "assertResult (cs_methodInfo okHandle) = None"
    by (simp add: example_defs assertResult_def)
  have h5: "close (impl (cs_Stream okHandle)) lg = None" for lg
    by (simp add: example_defs)
  have r: "recv (impl (cs_Stream okHandle)) lg = Inr 7" for lg
    by (simp add: example_defs)
  have s: "sid (cs_Stream okHandle) = 0"
    by (simp add: example_defs)
  show ?thesis
    using client_streaming_sequence [OF h1 h2 h3 refl h5, of 6 4, unfolded r s, simplified]
      h1 h2 h3 h5
    by blast
qed

subsection \<open>Server streaming: the request is sent during construction\<close>

text \<open>
  C3. When \<open>NewServerStreaming\<close> returns a handle for method \<open>m\<close> and request
  \<open>r\<close>, the calls it made on the transport are, in order: opening the stream,
  one \<open>SendMsg\<close> of the Request Envelope \<open>{m, r}\<close> on it, and \<open>Close\<close> on it; all
  three precede the return. A later \<open>Recv\<close> on the handle (whose descriptor builds a
  generic Result Envelope) makes exactly one \<open>RecvMsg\<close> and returns what it
  answered. The request is sent by the constructor, not by the caller.
\<close>

theorem server_streaming_construction:
  assumes "NewServerStreaming ctx cli m r opts log0 = (Inr ss, cli', log)"
  shows "log = log0 @ [StreamCall (WithCallOptions ctx opts) m,
                       SendMsgCall (sid (ss_Stream ss)) \<lparr>Method = m, Request = r\<rparr>,
                       CloseCall (sid (ss_Stream ss))]
     \<and> (assertResult (ss_methodInfo ss) = None \<longrightarrow>
          ss_Recv ss lg =
            (case recv (impl (ss_Stream ss)) lg of
               Inl err \<Rightarrow> Inl (Error err) | Inr v \<Rightarrow> Inr v,
             lg @ [RecvMsgCall (sid (ss_Stream ss))]))"
  using NewServerStreaming_handle [OF assms]
  by (simp add: ss_Recv_def Stream_RecvMsg_def split: sum.splits)

theorem server_streaming_construction_witness:
  "NewServerStreaming Background (GenericServiceClient okClient) ''Foo'' 5 [] [] =
     (Inr okServerHandle,
      GenericServiceClient (okClient\<lparr>modeMap := Some [''Foo'' \<mapsto> StreamingServer]\<rparr>),
      [StreamCall (WithCallOptions Background []) ''Foo'',
       SendMsgCall 0 \<lparr>Method = ''Foo'', Request = 5\<rparr>, CloseCall 0])
   \<and> assertResult (ss_methodInfo okServerHandle) = None
   \<and> ss_Recv okServerHandle
        [StreamCall (WithCallOptions Background []) ''Foo'',
         SendMsgCall 0 \<lparr>Method = ''Foo'', Request = 5\<rparr>, CloseCall 0]
       = (Inr 7,
          [StreamCall (WithCallOptions Background []) ''Foo'',
           SendMsgCall 0 \<lparr>Method = ''Foo'', Request = 5\<rparr>, CloseCall 0, RecvMsgCall 0])"
proof -
  have h1: "NewServerStreaming Background (GenericServiceClient okClient) ''Foo'' 5 [] [] =
     (Inr okServerHandle,
      GenericServiceClient (okClient\<lparr>modeMap := Some [''Foo'' \<mapsto> StreamingServer]\<rparr>),
      [StreamCall (WithCallOptions Background []) ''Foo'',
       SendMsgCall 0 \<lparr>Method = ''Foo'', Request = 5\<rparr>, CloseCall 0])"
    by (simp add: example_defs NewServerStreaming_def getStream_def
        recordMode_def LoadOrStore_def svcInfo_MethodInfo_def svcInfo_GenericMethod_def
        assertArgs_def Stream_SendMsg_def Stream_Close_def)
  have h2: "assertResult (ss_methodInfo okServerHandle) = None"
    by (simp add: example_defs assertResult_def)
  show ?thesis
    using server_streaming_construction
      [OF h1, of "[StreamCall (WithCallOptions Background []) ''Foo'',
                   SendMsgCall 0 \<lparr>Method = ''Foo'', Request = 5\<rparr>, CloseCall 0]"]
      h1 h2
    by (simp add: okServerHandle_def okImpl_def)
qed

subsection \<open>The method field of every envelope\<close>

lemma sends_only_Nil [simp]: "sends_only i m []"
  by (simp add: sends_only_def)

lemma sends_only_append [simp]:
  "sends_only i m (xs @ ys) = (sends_only i m xs \<and> sends_only i m ys)"
  by (simp add: sends_only_def)

lemma cs_Send_appends:
  "\<exists>ext. snd (cs_Send cs req log) = log @ ext
     \<and> sends_only (sid (cs_Stream cs)) (cs_method cs) ext"
  by (simp add: cs_Send_def Stream_SendMsg_def sends_only_def split: option.splits)

lemma cs_CloseAndRecv_appends:
  "\<exists>ext. snd (cs_CloseAndRecv cs log) = log @ ext \<and> sends_only i m ext"
  by (simp add: cs_CloseAndRecv_def Stream_Close_def Stream_RecvMsg_def sends_only_def
      split: option.splits sum.splits)

lemma bs_Send_appends:
  "\<exists>ext. snd (bs_Send bs req log) = log @ ext
     \<and> sends_only (sid (bs_Stream bs)) (bs_method bs) ext"
  by (simp add: bs_Send_def Stream_SendMsg_def sends_only_def split: option.splits)

lemma bs_Recv_appends:
  "\<exists>ext. snd (bs_Recv bs log) = log @ ext \<and> sends_only i m ext"
  by (simp add: bs_Recv_def Stream_RecvMsg_def sends_only_def
      split: option.splits sum.splits)

lemma ss_Recv_appends:
  "\<exists>ext. snd (ss_Recv ss log) = log @ ext \<and> sends_only i m ext"
  by (simp add: ss_Recv_def Stream_RecvMsg_def sends_only_def
      split: option.splits sum.splits)

lemma appends_chain:
  assumes "step = log @ e1 \<and> sends_only i m e1"
    and "\<exists>e2. rest = step @ e2 \<and> sends_only i m e2"
  shows "\<exists>ext. rest = log @ ext \<and> sends_only i m ext"
proof -
  obtain e2 where "rest = step @ e2" "sends_only i m e2"
    using assms(2) by auto
  then have "rest = log @ (e1 @ e2) \<and> sends_only i m (e1 @ e2)"
    using assms(1) by simp
  then show ?thesis by blast
qed

lemma cs_run_appends:
  "\<exists>ext. cs_run cs ops log = log @ ext
     \<and> sends_only (sid (cs_Stream cs)) (cs_method cs) ext"
proof (induction ops arbitrary: log)
  case Nil
  show ?case by simp
next
  case (Cons op ops)
  show ?case
  proof (cases op)
    case (CsSend req)
    obtain e1 where "snd (cs_Send cs req log) = log @ e1
        \<and> sends_only (sid (cs_Stream cs)) (cs_method cs) e1"
      using cs_Send_appends [of cs req log] by auto
    then show ?thesis
      using CsSend Cons.IH [of "snd (cs_Send cs req log)"] appends_chain by fastforce
  next
    case CsCloseAndRecv
    obtain e1 where "snd (cs_CloseAndRecv cs log) = log @ e1
        \<and> sends_only (sid (cs_Stream cs)) (cs_method cs) e1"
      using cs_CloseAndRecv_appends [of cs log] by auto
    then show ?thesis
      using CsCloseAndRecv Cons.IH [of "snd (cs_CloseAndRecv cs log)"] appends_chain
      by fastforce
  qed
qed

lemma bs_run_appends:
  "\<exists>ext. bs_run bs ops log = log @ ext
     \<and> sends_only (sid (bs_Stream bs)) (bs_method bs) ext"
proof (induction ops arbitrary: log)
  case Nil
  show ?case by simp
next
  case (Cons op ops)
  show ?case
  proof (cases op)
    case (BsSend req)
    obtain e1 where "snd (bs_Send bs req log) = log @ e1
        \<and> sends_only (sid (bs_Stream bs)) (bs_method bs) e1"
      using bs_Send_appends [of bs req log] by auto
    then show ?thesis
      using BsSend Cons.IH [of "snd (bs_Send bs req log)"] appends_chain by fastforce
  next
    case BsRecv
    obtain e1 where "snd (bs_Recv bs log) = log @ e1
        \<and> sends_only (sid (bs_Stream bs)) (bs_method bs) e1"
      using bs_Recv_appends [of bs log] by auto
    then show ?thesis
      using BsRecv Cons.IH [of "snd (bs_Recv bs log)"] appends_chain by fastforce
  qed
qed

lemma ss_run_appends:
  "\<exists>ext. ss_run ss n log = log @ ext \<and> sends_only i m ext"
proof (induction n arbitrary: log)
  case 0
  show ?case by simp
next
  case (Suc n)
  obtain e1 where "snd (ss_Recv ss log) = log @ e1 \<and> sends_only i m e1"
    using ss_Recv_appends [of ss log] by auto
  then show ?case
    using Suc.IH [of "snd (ss_Recv ss log)"] appends_chain by fastforce
qed

lemma NewServerStreaming_appends:
  "\<exists>ext. snd (snd (NewServerStreaming ctx cli m r opts log0)) = log0 @ ext
     \<and> sends_only (length log0) m ext"
  by (auto simp: NewServerStreaming_def getStream_def Let_def Stream_SendMsg_def
      Stream_Close_def sends_only_def
      split: Client.splits KClient.splits sum.splits prod.splits option.splits)

text \<open>
  C7. Every Request Envelope written on behalf of a handle names the method the
  handle was made for, which is the name its descriptor was resolved with. For a
  handle that \<open>NewClientStreaming\<close> or \<open>NewBidirectionalStreaming\<close> returned for
  \<open>m\<close>: the handle's descriptor is the resolution of \<open>m\<close> on the client, and after
  any sequence of operations on the handle every \<open>SendMsg\<close> logged since the factory
  was entered is on the handle's stream with method field \<open>m\<close>. For
  \<open>NewServerStreaming\<close> the same holds of everything the constructor logs, whether
  it returns a handle or an error, and of any number of \<open>Recv\<close> calls afterwards.
\<close>

theorem envelopes_name_the_method:
  "(NewClientStreaming ctx cli m opts log0 = (Inr cs, cli', log) \<longrightarrow>
      (\<exists>gc. cli' = GenericServiceClient gc \<and> svcInfo_MethodInfo gc m = Inr (cs_methodInfo cs))
      \<and> (\<exists>ext. cs_run cs cops log = log0 @ ext \<and> sends_only (sid (cs_Stream cs)) m ext))
   \<and> (NewBidirectionalStreaming ctx cli m opts log0 = (Inr bs, cli', log) \<longrightarrow>
      (\<exists>gc. cli' = GenericServiceClient gc \<and> svcInfo_MethodInfo gc m = Inr (bs_methodInfo bs))
      \<and> (\<exists>ext. bs_run bs bops log = log0 @ ext \<and> sends_only (sid (bs_Stream bs)) m ext))
   \<and> (\<exists>ext. snd (snd (NewServerStreaming ctx cli m r opts log0)) = log0 @ ext
         \<and> sends_only (length log0) m ext)
   \<and> (NewServerStreaming ctx cli m r opts log0 = (Inr ss, cli', log) \<longrightarrow>
      (\<exists>gc. cli' = GenericServiceClient gc \<and> svcInfo_MethodInfo gc m = Inr (ss_methodInfo ss))
      \<and> (\<exists>ext. ss_run ss n log = log0 @ ext \<and> sends_only (sid (ss_Stream ss)) m ext))"
proof (intro conjI impI)
  assume a: "NewClientStreaming ctx cli m opts log0 = (Inr cs, cli', log)"
  note h = NewClientStreaming_handle [OF a]
  show "\<exists>gc. cli' = GenericServiceClient gc \<and> svcInfo_MethodInfo gc m = Inr (cs_methodInfo cs)"
    using h by simp
  have "log = log0 @ [StreamCall (WithCallOptions ctx opts) m]
      \<and> sends_only (sid (cs_Stream cs)) m [StreamCall (WithCallOptions ctx opts) m]"
    using h by (simp add: sends_only_def)
  then show "\<exists>ext. cs_run cs cops log = log0 @ ext \<and> sends_only (sid (cs_Stream cs)) m ext"
    using cs_run_appends [of cs cops log] h appends_chain by fastforce
next
  assume a: "NewBidirectionalStreaming ctx cli m opts log0 = (Inr bs, cli', log)"
  note h = NewBidirectionalStreaming_handle [OF a]
  show "\<exists>gc. cli' = GenericServiceClient gc \<and> svcInfo_MethodInfo gc m = Inr (bs_methodInfo bs)"
    using h by simp
  have "log = log0 @ [StreamCall (WithCallOptions ctx opts) m]
      \<and> sends_only (sid (bs_Stream bs)) m [StreamCall (WithCallOptions ctx opts) m]"
    using h by (simp add: sends_only_def)
  then show "\<exists>ext. bs_run bs bops log = log0 @ ext \<and> sends_only (sid (bs_Stream bs)) m ext"
    using bs_run_appends [of bs bops log] h appends_chain by fastforce
next
  show "\<exists>ext. snd (snd (NewServerStreaming ctx cli m r opts log0)) = log0 @ ext
         \<and> sends_only (length log0) m ext"
    by (rule NewServerStreaming_appends)
next
  assume a: "NewServerStreaming ctx cli m r opts log0 = (Inr ss, cli', log)"
  note h = NewServerStreaming_handle [OF a]
  show "\<exists>gc. cli' = GenericServiceClient gc \<and> svcInfo_MethodInfo gc m = Inr (ss_methodInfo ss)"
    using h by simp
  have "log = log0 @ [StreamCall (WithCallOptions ctx opts) m,
                     SendMsgCall (length log0) \<lparr>Method = m, Request = r\<rparr>,
                     CloseCall (length log0)]
      \<and> sends_only (sid (ss_Stream ss)) m [StreamCall (WithCallOptions ctx opts) m,
                     SendMsgCall (length log0) \<lparr>Method = m, Request = r\<rparr>,
                     CloseCall (length log0)]"
    using h by (simp add: sends_only_def)
  then show "\<exists>ext. ss_run ss n log = log0 @ ext \<and> sends_only (sid (ss_Stream ss)) m ext"
    using ss_run_appends [of ss n log "sid (ss_Stream ss)" m] appends_chain by fastforce
qed

theorem envelopes_name_the_method_witness:
  "NewClientStreaming Background (GenericServiceClient okClient) ''Foo'' [] [] =
     (Inr okHandle,
      GenericServiceClient (okClient\<lparr>modeMap := Some [''Foo'' \<mapsto> StreamingClient]\<rparr>),
      [StreamCall (WithCallOptions Background []) ''Foo''])
   \<and> NewBidirectionalStreaming Background (GenericServiceClient okClient) ''Foo'' [] [] =
     (Inr okBidiHandle,
      GenericServiceClient (okClient\<lparr>modeMap := Some [''Foo'' \<mapsto> StreamingBidirectional]\<rparr>),
      [StreamCall (WithCallOptions Background []) ''Foo''])
   \<and> NewServerStreaming Background (GenericServiceClient okClient) ''Foo'' 5 [] [] =
     (Inr okServerHandle,
      GenericServiceClient (okClient\<lparr>modeMap := Some [''Foo'' \<mapsto> StreamingServer]\<rparr>),
      [StreamCall (WithCallOptions Background []) ''Foo'',
       SendMsgCall 0 \<lparr>Method = ''Foo'', Request = 5\<rparr>, CloseCall 0])
   \<and> (\<exists>ext. cs_run okHandle [CsSend 4, CsCloseAndRecv, CsSend 6]
               [StreamCall (WithCallOptions Background []) ''Foo''] = [] @ ext
             \<and> sends_only (sid (cs_Stream okHandle)) ''Foo'' ext)
   \<and> (\<exists>ext. bs_run okBidiHandle [BsRecv, BsSend 4, BsSend 6]
               [StreamCall (WithCallOptions Background []) ''Foo''] = [] @ ext
             \<and> sends_only (sid (bs_Stream okBidiHandle)) ''Foo'' ext)
   \<and> (\<exists>ext. ss_run okServerHandle 2
               [StreamCall (WithCallOptions Background []) ''Foo'',
                SendMsgCall 0 \<lparr>Method = ''Foo'', Request = 5\<rparr>, CloseCall 0] = [] @ ext
             \<and> sends_only (sid (ss_Stream okServerHandle)) ''Foo'' ext)
   \<and> cs_run okHandle [CsSend 4, CsCloseAndRecv, CsSend 6]
        [StreamCall (WithCallOptions Background []) ''Foo'']
      = [StreamCall (WithCallOptions Background []) ''Foo'',
         SendMsgCall 0 \<lparr>Method = ''Foo'', Request = 4\<rparr>, CloseCall 0, RecvMsgCall 0,
         SendMsgCall 0 \<lparr>Method = ''Foo'', Request = 6\<rparr>]"
proof -
  have c: "NewClientStreaming Background (GenericServiceClient okClient) ''Foo'' [] [] =
     (Inr okHandle,
      GenericServiceClient (okClient\<lparr>modeMap := Some [''Foo'' \<mapsto> StreamingClient]\<rparr>),
      [StreamCall (WithCallOptions Background []) ''Foo''])"
    by (simp add: example_defs factory_defs)
  have b: "NewBidirectionalStreaming Background (GenericServiceClient okClient) ''Foo'' [] [] =
     (Inr okBidiHandle,
      GenericServiceClient (okClient\<lparr>modeMap := Some [''Foo'' \<mapsto> StreamingBidirectional]\<rparr>),
      [StreamCall (WithCallOptions Background []) ''Foo''])"
    by (simp add: example_defs factory_defs)
  have s: "NewServerStreaming Background (GenericServiceClient okClient) ''Foo'' 5 [] [] =
     (Inr okServerHandle,
      GenericServiceClient (okClient\<lparr>modeMap := Some [''Foo'' \<mapsto> StreamingServer]\<rparr>),
      [StreamCall (WithCallOptions Background []) ''Foo'',
       SendMsgCall 0 \<lparr>Method = ''Foo'', Request = 5\<rparr>, CloseCall 0])"
    by (simp add: example_defs factory_defs)
  have run: "cs_run okHandle [CsSend 4, CsCloseAndRecv, CsSend 6]
        [StreamCall (WithCallOptions Background []) ''Foo'']
      = [StreamCall (WithCallOptions Background []) ''Foo'',
         SendMsgCall 0 \<lparr>Method = ''Foo'', Request = 4\<rparr>, CloseCall 0, RecvMsgCall 0,
         SendMsgCall 0 \<lparr>Method = ''Foo'', Request = 6\<rparr>]"
    by (simp add: example_defs factory_defs handle_defs)
  note t1 = envelopes_name_the_method
    [of Background "GenericServiceClient okClient" "''Foo''" "[]" "[]" okHandle
        "GenericServiceClient (okClient\<lparr>modeMap := Some [''Foo'' \<mapsto> StreamingClient]\<rparr>)"
        "[StreamCall (WithCallOptions Background []) ''Foo'']"
        "[CsSend 4, CsCloseAndRecv, CsSend 6]"]
  note t2 = envelopes_name_the_method
    [of Background "GenericServiceClient okClient" "''Foo''" "[]" "[]" _
        "GenericServiceClient (okClient\<lparr>modeMap := Some [''Foo'' \<mapsto> StreamingBidirectional]\<rparr>)"
        "[StreamCall (WithCallOptions Background []) ''Foo'']" _ okBidiHandle
        "[BsRecv, BsSend 4, BsSend 6]"]
  note t3 = envelopes_name_the_method
    [of Background "GenericServiceClient okClient" "''Foo''" "[]" "[]" _
        "GenericServiceClient (okClient\<lparr>modeMap := Some [''Foo'' \<mapsto> StreamingServer]\<rparr>)"
        "[StreamCall (WithCallOptions Background []) ''Foo'',
          SendMsgCall 0 \<lparr>Method = ''Foo'', Request = 5\<rparr>, CloseCall 0]" _ _ _ 5
        okServerHandle 2]
  from t1 c have r1: "\<exists>ext. cs_run okHandle [CsSend 4, CsCloseAndRecv, CsSend 6]
               [StreamCall (WithCallOptions Background []) ''Foo''] = [] @ ext
             \<and> sends_only (sid (cs_Stream okHandle)) ''Foo'' ext"
    by blast
  from t2 b have r2: "\<exists>ext. bs_run okBidiHandle [BsRecv, BsSend 4, BsSend 6]
               [StreamCall (WithCallOptions Background []) ''Foo''] = [] @ ext
             \<and> sends_only (sid (bs_Stream okBidiHandle)) ''Foo'' ext"
    by blast
  from t3 s have r3: "\<exists>ext. ss_run okServerHandle 2
               [StreamCall (WithCallOptions Background []) ''Foo'',
                SendMsgCall 0 \<lparr>Method = ''Foo'', Request = 5\<rparr>, CloseCall 0] = [] @ ext
             \<and> sends_only (sid (ss_Stream okServerHandle)) ''Foo'' ext"
    by blast
  show ?thesis
    using c b s r1 r2 r3 run by blast
qed

subsection \<open>The registry: first write wins\<close>

lemma call_factory_client:
  "fst (call_factory c (GenericServiceClient gc) log)
     = GenericServiceClient (recordMode gc (factory_method c) (factory_mode c))"
  by (cases c)
    (auto simp: NewClientStreaming_def NewServerStreaming_def NewBidirectionalStreaming_def
      Let_def split: prod.splits sum.splits option.splits)

lemma recordMode_fresh:
  "modeMap gc = Some mp \<Longrightarrow> mp m = None \<Longrightarrow>
   recordMode gc m M = gc\<lparr>modeMap := Some (mp(m \<mapsto> M))\<rparr>"
  by (simp add: recordMode_def LoadOrStore_def)

lemma recordMode_keeps:
  "modeMap gc = Some mp \<Longrightarrow> mp m = Some M \<Longrightarrow>
   \<exists>mp'. modeMap (recordMode gc m' M') = Some mp' \<and> mp' m = Some M"
  by (auto simp: recordMode_def LoadOrStore_def split: option.splits)

lemma run_calls_keeps_mode:
  "modeMap gc = Some mp \<Longrightarrow> mp m = Some M \<Longrightarrow>
   \<exists>gc' mp'. fst (run_calls calls (GenericServiceClient gc) log) = GenericServiceClient gc'
      \<and> svcInfo gc' = svcInfo gc \<and> g gc' = g gc \<and> kClient gc' = kClient gc
      \<and> modeMap gc' = Some mp' \<and> mp' m = Some M"
proof (induction calls arbitrary: gc mp log)
  case Nil
  then show ?case by simp
next
  case (Cons c calls)
  let ?gc1 = "recordMode gc (factory_method c) (factory_mode c)"
  obtain log1 where step: "call_factory c (GenericServiceClient gc) log
      = (GenericServiceClient ?gc1, log1)"
    using call_factory_client [of c gc log] by (cases "call_factory c (GenericServiceClient gc) log") simp
  obtain mp1 where mp1: "modeMap ?gc1 = Some mp1" "mp1 m = Some M"
    using recordMode_keeps [OF Cons.prems] by blast
  obtain gc' mp' where
    "fst (run_calls calls (GenericServiceClient ?gc1) log1) = GenericServiceClient gc'"
    "svcInfo gc' = svcInfo ?gc1" "g gc' = g ?gc1" "kClient gc' = kClient ?gc1"
    "modeMap gc' = Some mp'" "mp' m = Some M"
    using Cons.IH [OF mp1, of log1] by blast
  then show ?case
    using step by simp
qed

lemma resolve_recorded:
  "\<not> HasIDLInfo (g gc) \<Longrightarrow> modeMap gc = Some mp \<Longrightarrow> mp m = Some M \<Longrightarrow>
   svcInfo_GenericMethod (svcInfo gc) (g gc) (modeMap gc) m
     = Inr (Direct (Methods (svcInfo gc) (getGenericStreamingMethodInfoKey M)))"
  by (simp add: svcInfo_GenericMethod_def)

text \<open>
  C1. Without interface-description metadata, let \<open>c\<close> be a call of any of the
  three factories for a method name that has no recorded mode. After \<open>c\<close> and any
  further sequence \<open>later\<close> of factory calls on the same client (of any shape, for
  any names, whatever they return), the registry still maps the name to the mode of
  \<open>c\<close>, and resolving the name yields the descriptor slot of that mode.
\<close>

theorem first_mode_wins:
  assumes "\<not> HasIDLInfo (g gc)"
    and "modeMap gc = Some mp"
    and "mp (factory_method c) = None"
  shows "\<exists>gc' mp'. fst (run_calls (c # later) (GenericServiceClient gc) log)
            = GenericServiceClient gc'
     \<and> modeMap gc' = Some mp' \<and> mp' (factory_method c) = Some (factory_mode c)
     \<and> svcInfo_GenericMethod (svcInfo gc') (g gc') (modeMap gc') (factory_method c)
         = Inr (Direct (Methods (svcInfo gc)
                  (getGenericStreamingMethodInfoKey (factory_mode c))))"
proof -
  let ?m = "factory_method c" and ?M = "factory_mode c"
  let ?gc1 = "gc\<lparr>modeMap := Some (mp(?m \<mapsto> ?M))\<rparr>"
  have gc1: "recordMode gc ?m ?M = ?gc1"
    using assms(2,3) by (rule recordMode_fresh)
  obtain log1 where step: "call_factory c (GenericServiceClient gc) log
      = (GenericServiceClient ?gc1, log1)"
    using call_factory_client [of c gc log] gc1
    by (cases "call_factory c (GenericServiceClient gc) log") simp
  have "modeMap ?gc1 = Some (mp(?m \<mapsto> ?M))" "(mp(?m \<mapsto> ?M)) ?m = Some ?M"
    by simp_all
  then obtain gc' mp' where k:
    "fst (run_calls later (GenericServiceClient ?gc1) log1) = GenericServiceClient gc'"
    "svcInfo gc' = svcInfo ?gc1" "g gc' = g ?gc1"
    "modeMap gc' = Some mp'" "mp' ?m = Some ?M"
    using run_calls_keeps_mode [of ?gc1 "mp(?m \<mapsto> ?M)" ?m ?M later log1] by blast
  have "\<not> HasIDLInfo (g gc')"
    using k(3) assms(1) by simp
  then have "svcInfo_GenericMethod (svcInfo gc') (g gc') (modeMap gc') ?m
      = Inr (Direct (Methods (svcInfo gc) (getGenericStreamingMethodInfoKey ?M)))"
    using resolve_recorded [OF _ k(4,5)] k(2) by simp
  then show ?thesis
    using step k(1,4,5) by simp
qed

theorem first_mode_wins_witness:
  "\<not> HasIDLInfo (g okClient)
   \<and> modeMap okClient = Some Map.empty
   \<and> Map.empty (factory_method (ClientStreamingCall Background ''Foo'' [] :: nat factory_call))
       = (None :: StreamingMode option)
   \<and> fst (run_calls
             [ClientStreamingCall Background ''Foo'' [],
              ServerStreamingCall Background ''Foo'' 5 [],
              BidirectionalStreamingCall Background ''Foo'' []]
             (GenericServiceClient okClient) [])
       = GenericServiceClient (okClient\<lparr>modeMap := Some [''Foo'' \<mapsto> StreamingClient]\<rparr>)
   \<and> svcInfo_GenericMethod fullServiceInfo binaryGeneric
         (Some [''Foo'' \<mapsto> StreamingClient]) ''Foo''
       = Inr (Direct (Methods fullServiceInfo GenericClientStreamingMethod))"
proof -
  have h1: "\<not> HasIDLInfo (g okClient)"
    by (simp add: example_defs)
  have h2: "modeMap okClient = Some Map.empty"
    by (simp add: example_defs)
  have h3: "Map.empty (factory_method (ClientStreamingCall Background ''Foo'' [] :: nat factory_call))
       = (None :: StreamingMode option)"
    by simp
  have run: "fst (run_calls
             [ClientStreamingCall Background ''Foo'' [],
              ServerStreamingCall Background ''Foo'' 5 [],
              BidirectionalStreamingCall Background ''Foo'' []]
             (GenericServiceClient okClient) [])
       = GenericServiceClient (okClient\<lparr>modeMap := Some [''Foo'' \<mapsto> StreamingClient]\<rparr>)"
    by (simp add: example_defs factory_defs Let_def)
  have si: "svcInfo okClient = fullServiceInfo" "g okClient = binaryGeneric"
    by (simp_all add: okClient_def clientOver_def)
  obtain gc' where
    "fst (run_calls
             [ClientStreamingCall Background ''Foo'' [],
              ServerStreamingCall Background ''Foo'' 5 [],
              BidirectionalStreamingCall Background ''Foo'' []]
             (GenericServiceClient okClient) []) = GenericServiceClient gc'"
    "svcInfo_GenericMethod (svcInfo gc') (g gc') (modeMap gc') ''Foo''
       = Inr (Direct (Methods fullServiceInfo GenericClientStreamingMethod))"
    using first_mode_wins
      [where c = "ClientStreamingCall Background ''Foo'' []"
          and later = "[ServerStreamingCall Background ''Foo'' 5 [],
                        BidirectionalStreamingCall Background ''Foo'' []]"
          and log = "[]", OF h1 h2 h3] si
    by auto
  then show ?thesis
    using h1 h2 h3 run si by auto
qed

subsection \<open>The mode is recorded before the stream is opened\<close>

lemma getStream_recordMode:
  "getStream ctx (GenericServiceClient (recordMode gc m M)) method opts log
     = getStream ctx (GenericServiceClient gc) method opts log"
  by (simp add: getStream_def)

text \<open>
  C10. Without interface-description metadata, for a method name \<open>m\<close> with no
  recorded mode: when stream acquisition fails, each factory returns that error and no
  handle, and the client it leaves behind has the factory's own mode recorded for
  \<open>m\<close>. After that, and after any later factory calls, the hook installed by the
  constructor resolves \<open>m\<close> to the descriptor slot of the recorded mode.
\<close>

theorem failed_acquisition_records_mode:
  assumes "\<not> HasIDLInfo (g gc)"
    and "modeMap gc = Some mp"
    and "mp m = None"
    and "getStream ctx (GenericServiceClient gc) m opts log = (Inl e, log1)"
  shows "NewClientStreaming ctx (GenericServiceClient gc) m opts log
           = (Inl e, GenericServiceClient (gc\<lparr>modeMap := Some (mp(m \<mapsto> StreamingClient))\<rparr>), log1)
     \<and> NewServerStreaming ctx (GenericServiceClient gc) m r opts log
           = (Inl e, GenericServiceClient (gc\<lparr>modeMap := Some (mp(m \<mapsto> StreamingServer))\<rparr>), log1)
     \<and> NewBidirectionalStreaming ctx (GenericServiceClient gc) m opts log
           = (Inl e,
              GenericServiceClient (gc\<lparr>modeMap := Some (mp(m \<mapsto> StreamingBidirectional))\<rparr>),
              log1)
     \<and> (\<exists>gc'. fst (run_calls later
                      (GenericServiceClient (gc\<lparr>modeMap := Some (mp(m \<mapsto> M))\<rparr>)) lg)
                 = GenericServiceClient gc'
          \<and> svcInfo_GenericMethod (svcInfo gc') (g gc') (modeMap gc') m
              = Inr (Direct (Methods (svcInfo gc) (getGenericStreamingMethodInfoKey M))))"
proof -
  have rec: "recordMode gc m M' = gc\<lparr>modeMap := Some (mp(m \<mapsto> M'))\<rparr>" for M'
    using assms(2,3) by (rule recordMode_fresh)
  have gs: "getStream ctx (GenericServiceClient (gc\<lparr>modeMap := Some (mp(m \<mapsto> M'))\<rparr>)) m opts log
      = (Inl e, log1)" for M'
    using getStream_recordMode [of ctx gc m M' m opts log] assms(4) rec by simp
  let ?gc1 = "gc\<lparr>modeMap := Some (mp(m \<mapsto> M))\<rparr>"
  obtain gc' mp' where k:
    "fst (run_calls later (GenericServiceClient ?gc1) lg) = GenericServiceClient gc'"
    "svcInfo gc' = svcInfo ?gc1" "g gc' = g ?gc1"
    "modeMap gc' = Some mp'" "mp' m = Some M"
    using run_calls_keeps_mode [of ?gc1 "mp(m \<mapsto> M)" m M later lg] by auto
  have "\<not> HasIDLInfo (g gc')"
    using k(3) assms(1) by simp
  then have "svcInfo_GenericMethod (svcInfo gc') (g gc') (modeMap gc') m
      = Inr (Direct (Methods (svcInfo gc) (getGenericStreamingMethodInfoKey M)))"
    using resolve_recorded [OF _ k(4,5)] k(2) by simp
  then show ?thesis
    using k(1) rec gs
    by (simp add: NewClientStreaming_def NewServerStreaming_def NewBidirectionalStreaming_def)
qed

theorem failed_acquisition_records_mode_witness:
  "\<not> HasIDLInfo (g openFailClient)
   \<and> modeMap openFailClient = Some Map.empty
   \<and> Map.empty ''Foo'' = (None :: StreamingMode option)
   \<and> getStream Background (GenericServiceClient openFailClient) ''Foo'' [] []
       = (Inl (Error ''open failed''), [StreamCall (WithCallOptions Background []) ''Foo''])
   \<and> NewServerStreaming Background (GenericServiceClient openFailClient) ''Foo'' 5 [] []
       = (Inl (Error ''open failed''),
          GenericServiceClient (openFailClient\<lparr>modeMap := Some [''Foo'' \<mapsto> StreamingServer]\<rparr>),
          [StreamCall (WithCallOptions Background []) ''Foo''])
   \<and> (\<exists>gc'. fst (run_calls [ClientStreamingCall Background ''Foo'' []]
                    (GenericServiceClient
                       (openFailClient\<lparr>modeMap := Some [''Foo'' \<mapsto> StreamingServer]\<rparr>))
                    [StreamCall (WithCallOptions Background []) ''Foo''])
                = GenericServiceClient gc'
            \<and> svcInfo_GenericMethod (svcInfo gc') (g gc') (modeMap gc') ''Foo''
                = Inr (Direct (Methods (svcInfo openFailClient)
                         (getGenericStreamingMethodInfoKey StreamingServer))))"
proof -
  have h1: "\<not> HasIDLInfo (g openFailClient)"
    by (simp add: example_defs)
  have h2: "modeMap openFailClient = Some Map.empty"
    by (simp add: example_defs)
  have h3: "Map.empty ''Foo'' = (None :: StreamingMode option)"
    by simp
  have h4: "getStream Background (GenericServiceClient openFailClient) ''Foo'' [] []
       = (Inl (Error ''open failed''), [StreamCall (WithCallOptions Background []) ''Foo''])"
    by (simp add: example_defs getStream_def)
  show ?thesis
    using failed_acquisition_records_mode
      [OF h1 h2 h3 h4,
        where r = 5 and later = "[ClientStreamingCall Background ''Foo'' []]"
          and M = StreamingServer
          and lg = "[StreamCall (WithCallOptions Background []) ''Foo'']"]
      h1 h2 h3 h4
    by blast
qed

subsection \<open>Closing the raw stream\<close>

text \<open>
  C9, as claimed, fails. When the initial \<open>SendMsg\<close> of \<open>NewServerStreaming\<close>
  fails, the constructor returns the send error; the stream it opened has received
  the one \<open>SendMsg\<close> and no \<open>Close\<close>, so the stream acquired for the call is not
  closed exactly once on this error path.
\<close>

theorem send_failure_leaves_stream_open_counterexample:
  "fst (NewServerStreaming Background (GenericServiceClient sendFailClient) ''Foo'' 5 [] [])
     = Inl (Error ''send failed'')
   \<and> snd (snd (NewServerStreaming Background (GenericServiceClient sendFailClient) ''Foo'' 5 [] []))
     = [StreamCall (WithCallOptions Background []) ''Foo'',
        SendMsgCall 0 \<lparr>Method = ''Foo'', Request = 5\<rparr>]
   \<and> count_list
        (snd (snd (NewServerStreaming Background (GenericServiceClient sendFailClient)
                     ''Foo'' 5 [] [])))
        (CloseCall 0) \<noteq> 1"
  by (simp add: example_defs factory_defs)

text \<open>
  C9, amended. On the paths of \<open>NewServerStreaming\<close> where the stream is acquired,
  the constructor calls \<open>Close\<close> on that stream exactly once when the descriptor
  builds a generic Request Envelope and the initial \<open>SendMsg\<close> succeeds (whether or
  not \<open>Close\<close> then answers an error), and not at all otherwise. \<open>NewClientStreaming\<close>
  and \<open>NewBidirectionalStreaming\<close> never close the stream they acquire, and
  each call of \<open>CloseAndRecv\<close> calls \<open>Close\<close> on its handle's stream exactly once.
\<close>

theorem server_streaming_closes_after_send:
  assumes "kClient gc = StreamingKClient f"
    and "f log0 (WithCallOptions ctx opts) m = Inr res"
  shows "count_list
           (drop (length log0)
              (snd (snd (NewServerStreaming ctx (GenericServiceClient gc) m r opts log0))))
           (CloseCall (length log0))
         = (case svcInfo_MethodInfo (recordMode gc m StreamingServer) m of
              Inl p \<Rightarrow> 0
            | Inr mtInfo \<Rightarrow>
                if assertArgs mtInfo = None
                   \<and> send res (log0 @ [StreamCall (WithCallOptions ctx opts) m])
                        \<lparr>Method = m, Request = r\<rparr> = None
                then 1 else 0)
     \<and> count_list
           (drop (length log0)
              (snd (snd (NewClientStreaming ctx (GenericServiceClient gc) m opts log0))))
           (CloseCall i) = 0
     \<and> count_list
           (drop (length log0)
              (snd (snd (NewBidirectionalStreaming ctx (GenericServiceClient gc) m opts log0))))
           (CloseCall i) = 0
     \<and> count_list (drop (length lg) (snd (cs_CloseAndRecv cs lg))) (CloseCall (sid (cs_Stream cs)))
         = 1"
proof -
  have gs: "getStream ctx (GenericServiceClient (recordMode gc m M)) m opts log0
      = (Inr \<lparr>sid = length log0, impl = res\<rparr>,
         log0 @ [StreamCall (WithCallOptions ctx opts) m])" for M
    using assms by (simp add: getStream_open_ok)
  have a: "count_list
           (drop (length log0)
              (snd (snd (NewServerStreaming ctx (GenericServiceClient gc) m r opts log0))))
           (CloseCall (length log0))
         = (case svcInfo_MethodInfo (recordMode gc m StreamingServer) m of
              Inl p \<Rightarrow> 0
            | Inr mtInfo \<Rightarrow>
                if assertArgs mtInfo = None
                   \<and> send res (log0 @ [StreamCall (WithCallOptions ctx opts) m])
                        \<lparr>Method = m, Request = r\<rparr> = None
                then 1 else 0)"
    by (auto simp: NewServerStreaming_def gs Stream_SendMsg_def Stream_Close_def Let_def
        split: sum.splits option.splits)
  have b: "count_list
           (drop (length log0)
              (snd (snd (NewClientStreaming ctx (GenericServiceClient gc) m opts log0))))
           (CloseCall i) = 0"
    by (simp add: NewClientStreaming_def gs Let_def split: sum.splits)
  have c: "count_list
           (drop (length log0)
              (snd (snd (NewBidirectionalStreaming ctx (GenericServiceClient gc) m opts log0))))
           (CloseCall i) = 0"
    by (simp add: NewBidirectionalStreaming_def gs Let_def split: sum.splits)
  have d: "count_list (drop (length lg) (snd (cs_CloseAndRecv cs lg)))
              (CloseCall (sid (cs_Stream cs))) = 1"
    by (simp add: cs_CloseAndRecv_def Stream_Close_def Stream_RecvMsg_def
        split: sum.splits option.splits)
  from a b c d show ?thesis by blast
qed

theorem server_streaming_closes_after_send_witness:
  "kClient closeFailClient = StreamingKClient (\<lambda>log ctx method. Inr closeFailImpl)
   \<and> (\<lambda>log ctx method. Inr closeFailImpl :: string + nat StreamImpl)
        [] (WithCallOptions Background []) ''Foo'' = Inr closeFailImpl
   \<and> fst (NewServerStreaming Background (GenericServiceClient closeFailClient) ''Foo'' 5 [] [])
       = Inl (Error ''close failed'')
   \<and> count_list
        (drop (length [])
           (snd (snd (NewServerStreaming Background (GenericServiceClient closeFailClient)
                        ''Foo'' 5 [] []))))
        (CloseCall (length [])) = 1
   \<and> kClient sendFailClient = StreamingKClient (\<lambda>log ctx method. Inr sendFailImpl)
   \<and> count_list
        (drop (length [])
           (snd (snd (NewServerStreaming Background (GenericServiceClient sendFailClient)
                        ''Foo'' 5 [] []))))
        (CloseCall (length [])) = 0"
proof -
  have k1: "kClient closeFailClient = StreamingKClient (\<lambda>log ctx method. Inr closeFailImpl)"
    by (simp add: example_defs)
  have k2: "kClient sendFailClient = StreamingKClient (\<lambda>log ctx method. Inr sendFailImpl)"
    by (simp add: example_defs)
  have e: "fst (NewServerStreaming Background (GenericServiceClient closeFailClient)
                  ''Foo'' 5 [] [])
       = Inl (Error ''close failed'')"
    by (simp add: example_defs factory_defs Let_def)
  have m1: "svcInfo_MethodInfo (recordMode closeFailClient ''Foo'' StreamingServer) ''Foo''
      = Inr (Direct (Some genericSlot))"
    by (simp add: example_defs factory_defs)
  have m2: "svcInfo_MethodInfo (recordMode sendFailClient ''Foo'' StreamingServer) ''Foo''
      = Inr (Direct (Some genericSlot))"
    by (simp add: example_defs factory_defs)
  have a: "assertArgs (Direct (Some genericSlot)) = None"
    by (simp add: assertArgs_def genericSlot_def)
  have c1: "count_list
        (drop (length [])
           (snd (snd (NewServerStreaming Background (GenericServiceClient closeFailClient)
                        ''Foo'' 5 [] []))))
        (CloseCall (length [])) = 1"
    using server_streaming_closes_after_send
      [OF k1 refl, where ctx = Background and opts = "[]" and m = "''Foo''" and r = 5
         and ?log0.0 = "[]" and i = 0 and lg = "[]" and cs = okHandle]
    by (simp add: m1 a closeFailImpl_def)
  have c2: "count_list
        (drop (length [])
           (snd (snd (NewServerStreaming Background (GenericServiceClient sendFailClient)
                        ''Foo'' 5 [] []))))
        (CloseCall (length [])) = 0"
    using server_streaming_closes_after_send
      [OF k2 refl, where ctx = Background and opts = "[]" and m = "''Foo''" and r = 5
         and ?log0.0 = "[]" and i = 0 and lg = "[]" and cs = okHandle]
    by (simp add: m2 a sendFailImpl_def)
  from k1 e c1 k2 c2 show ?thesis
    by simp
qed

subsection \<open>Panics\<close>
















end
